theory Spec2Isabelle
  imports Main "HOL-Library.Word"
begin

section \<open>The persona gateway of web/src/app/admin/personas/lib.ts\<close>

text \<open>
  The module is a browser-side client: every exported function builds requests, hands
  them to \<^verbatim>\<open>fetch\<close> and returns what came back. The embedding keeps the requests as
  records, the network as a parameter, and the history of issued requests as explicit
  state, so that "which calls were made, in which order" is a value one can reason about.
\<close>

subsection \<open>Strings, numbers and errors of the platform\<close>

text \<open>
  An ECMAScript string is a sequence of 16-bit code units. String literals of the source
  are ASCII; \<open>lit\<close> turns such a literal into code units.
\<close>

type_synonym jsstring = "16 word list"

definition lit :: "string \<Rightarrow> jsstring" where
  "lit s = map of_char s"

text \<open>
  The exceptions the platform can raise under this module: \<^verbatim>\<open>fetch\<close> rejects with a
  TypeError when the network fails, reading a property of \<^verbatim>\<open>null\<close> is a TypeError,
  \<^verbatim>\<open>Response.json()\<close> rejects with a SyntaxError on a body that is not JSON, and
  \<^verbatim>\<open>encodeURIComponent\<close> throws a URIError on an unpaired surrogate.
\<close>

datatype js_error = TypeError | SyntaxError | URIError

text \<open>A settled promise: \<open>Inl\<close> is a rejection, \<open>Inr\<close> the value it was fulfilled with.\<close>

type_synonym 'a promise = "js_error + 'a"

text \<open>
  Number-to-string conversion inside a template literal. The numbers of this module are
  ids, which are integers. For an integer of magnitude below \<open>2\<^sup>5\<^sup>3\<close> (a safe integer)
  the conversion is the decimal numeral. Beyond that the platform prints rounded digits
  and, from \<open>10\<^sup>2\<^sup>1\<close> on, an exponent (\<^verbatim>\<open>1e+21\<close>); that part of the platform is not
  modelled, it is the parameter \<open>big\<close> of every function that renders a number.
\<close>

type_synonym number_text = "int \<Rightarrow> jsstring"

definition safe_integer :: "int \<Rightarrow> bool" where
  "safe_integer i = (- 9007199254740992 < i \<and> i < 9007199254740992)"

definition digit_unit :: "nat \<Rightarrow> 16 word" where
  "digit_unit d = of_nat (48 + d)"

fun decimal :: "nat \<Rightarrow> jsstring" where
  "decimal n = (if n < 10 then [digit_unit n] else decimal (n div 10) @ [digit_unit (n mod 10)])"

declare decimal.simps [simp del]

definition Number_toString :: "number_text \<Rightarrow> int \<Rightarrow> jsstring" where
  "Number_toString big i =
     (if safe_integer i
      then (if i < 0 then lit ''-'' @ decimal (nat (- i)) else decimal (nat i))
      else big i)"

definition Boolean_toString :: "bool \<Rightarrow> jsstring" where
  "Boolean_toString b = (if b then lit ''true'' else lit ''false'')"

subsection \<open>Values\<close>

text \<open>
  Run-time values, as far as this module meets them: what \<^verbatim>\<open>Response.json()\<close> can
  produce, plus \<^verbatim>\<open>undefined\<close>. Numbers are integers, as ids and chunk counts are. An
  object is the list of its own properties in insertion order, each key once.
\<close>

datatype jsval =
    Undefined
  | Null
  | Bool bool
  | Num int
  | Str jsstring
  | Arr "jsval list"
  | Obj "(jsstring \<times> jsval) list"

text \<open>The truthiness test applied by \<^verbatim>\<open>&&\<close> and by the conditional operator.\<close>

fun ToBoolean :: "jsval \<Rightarrow> bool" where
  "ToBoolean Undefined = False"
| "ToBoolean Null = False"
| "ToBoolean (Bool b) = b"
| "ToBoolean (Num n) = (n \<noteq> 0)"
| "ToBoolean (Str s) = (s \<noteq> [])"
| "ToBoolean (Arr xs) = True"
| "ToBoolean (Obj ps) = True"

text \<open>
  Property read \<^verbatim>\<open>v.id\<close> on a parsed body: a TypeError on \<^verbatim>\<open>null\<close> and
  \<^verbatim>\<open>undefined\<close>, the property's value on an object that has it, and \<^verbatim>\<open>undefined\<close>
  everywhere else (an object without the property, an array, a primitive).
\<close>

fun get_property :: "jsval \<Rightarrow> jsstring \<Rightarrow> jsval promise" where
  "get_property Undefined k = Inl TypeError"
| "get_property Null k = Inl TypeError"
| "get_property (Obj ps) k = Inr (case map_of ps k of None \<Rightarrow> Undefined | Some v \<Rightarrow> v)"
| "get_property v k = Inr Undefined"

text \<open>
  \<^verbatim>\<open>JSON.stringify\<close>. The text itself is not modelled: the result is the value that the
  text denotes. That keeps what the serialisation changes: a property whose value is
  \<^verbatim>\<open>undefined\<close> is omitted, an \<^verbatim>\<open>undefined\<close> array element is written as
  \<^verbatim>\<open>null\<close>, and \<^verbatim>\<open>undefined\<close> itself has no text at all.
\<close>

fun serialise :: "jsval \<Rightarrow> jsval"
  and serialise_elements :: "jsval list \<Rightarrow> jsval list"
  and serialise_properties :: "(jsstring \<times> jsval) list \<Rightarrow> (jsstring \<times> jsval) list" where
  "serialise (Arr xs) = Arr (serialise_elements xs)"
| "serialise (Obj ps) = Obj (serialise_properties ps)"
| "serialise Undefined = Undefined"
| "serialise Null = Null"
| "serialise (Bool b) = Bool b"
| "serialise (Num n) = Num n"
| "serialise (Str s) = Str s"
| "serialise_elements [] = []"
| "serialise_elements (x # xs) =
     (if x = Undefined then Null else serialise x) # serialise_elements xs"
| "serialise_properties [] = []"
| "serialise_properties (p # ps) =
     (if snd p = Undefined then serialise_properties ps
      else (fst p, serialise (snd p)) # serialise_properties ps)"

definition JSON_stringify :: "jsval \<Rightarrow> jsval option" where
  "JSON_stringify v = (if v = Undefined then None else Some (serialise v))"

subsection \<open>Requests, responses and the network\<close>

datatype verb = GET | POST | PATCH | DELETE

text \<open>
  The two arguments of \<^verbatim>\<open>fetch\<close>: the URL and the init object. A call without init, or
  without a field of it, has the platform's defaults: the GET verb, no headers, no body.
  The field \<^verbatim>\<open>method\<close> of the init object is \<open>http_method\<close> here.
\<close>

record request =
  url :: jsstring
  http_method :: verb
  headers :: "(jsstring \<times> jsstring) list"
  body :: "jsval option"

text \<open>
  Of a response the module reads the \<^verbatim>\<open>ok\<close> flag and, through \<^verbatim>\<open>json()\<close>, the
  parsed body; \<open>None\<close> is a body that is not JSON.
\<close>

record response =
  ok :: bool
  status :: nat
  json_body :: "jsval option"

definition json :: "response \<Rightarrow> jsval promise" where
  "json r = (case json_body r of None \<Rightarrow> Inl SyntaxError | Some v \<Rightarrow> Inr v)"

text \<open>
  The network and the servers behind it are outside the module. They are a parameter:
  given the requests issued so far and the next request, the promise \<^verbatim>\<open>fetch\<close> returns
  settles one way or the other. \<open>fetch\<close> records the request in the history.
\<close>

type_synonym network = "request list \<Rightarrow> request \<Rightarrow> response promise"

definition fetch :: "network \<Rightarrow> request \<Rightarrow> request list \<Rightarrow> response promise \<times> request list" where
  "fetch net rq hist = (net hist rq, hist @ [rq])"

definition json_headers :: "(jsstring \<times> jsstring) list" where
  "json_headers = [(lit ''Content-Type'', lit ''application/json'')]"

subsection \<open>Request shapes\<close>

record PersonaCreationRequest =
  name :: jsstring
  description :: jsstring
  system_prompt :: jsstring
  task_prompt :: jsstring
  document_set_ids :: "int list"
  num_chunks :: "int option"
  llm_relevance_filter :: "bool option"
  llm_model_version_override :: "jsstring option"

text \<open>The field \<^verbatim>\<open>id\<close> of the source is \<open>id'\<close> here: \<open>id\<close> is HOL's identity function.\<close>

record PersonaUpdateRequest = PersonaCreationRequest +
  id' :: int
  existingPromptId :: "int option"

text \<open>A field of type \<^verbatim>\<open>T | null\<close> as a value.\<close>

definition nullable :: "('a \<Rightarrow> jsval) \<Rightarrow> 'a option \<Rightarrow> jsval" where
  "nullable f x = (case x of None \<Rightarrow> Null | Some y \<Rightarrow> f y)"

subsection \<open>The private request builders\<close>

definition promptNameFromPersonaName :: "jsstring \<Rightarrow> jsstring" where
  "promptNameFromPersonaName personaName = lit ''default-prompt__'' @ personaName"

text \<open>
  \<open>createPrompt\<close> and \<open>updatePrompt\<close> take one object with named fields; here the
  fields are the arguments \<open>personaName\<close>, \<open>systemPrompt\<close> and \<open>taskPrompt\<close>.
\<close>

definition prompt_body :: "jsstring \<Rightarrow> jsstring \<Rightarrow> jsstring \<Rightarrow> jsval" where
  "prompt_body personaName systemPrompt taskPrompt = Obj
     [(lit ''name'', Str (promptNameFromPersonaName personaName)),
      (lit ''description'', Str (lit ''Default prompt for persona '' @ personaName)),
      (lit ''shared'', Bool True),
      (lit ''system_prompt'', Str systemPrompt),
      (lit ''task_prompt'', Str taskPrompt)]"

definition createPrompt_request :: "jsstring \<Rightarrow> jsstring \<Rightarrow> jsstring \<Rightarrow> request" where
  "createPrompt_request personaName systemPrompt taskPrompt =
     \<lparr>url = lit ''/api/prompt'', http_method = POST, headers = json_headers,
      body = JSON_stringify (prompt_body personaName systemPrompt taskPrompt)\<rparr>"

definition createPrompt ::
  "network \<Rightarrow> jsstring \<Rightarrow> jsstring \<Rightarrow> jsstring \<Rightarrow> request list
     \<Rightarrow> response promise \<times> request list" where
  "createPrompt net personaName systemPrompt taskPrompt hist =
     fetch net (createPrompt_request personaName systemPrompt taskPrompt) hist"

definition updatePrompt_request ::
  "number_text \<Rightarrow> int \<Rightarrow> jsstring \<Rightarrow> jsstring \<Rightarrow> jsstring \<Rightarrow> request" where
  "updatePrompt_request big promptId personaName systemPrompt taskPrompt =
     \<lparr>url = lit ''/api/prompt/'' @ Number_toString big promptId, http_method = PATCH,
      headers = json_headers,
      body = JSON_stringify (prompt_body personaName systemPrompt taskPrompt)\<rparr>"

definition updatePrompt ::
  "number_text \<Rightarrow> network \<Rightarrow> int \<Rightarrow> jsstring \<Rightarrow> jsstring \<Rightarrow> jsstring \<Rightarrow> request list
     \<Rightarrow> response promise \<times> request list" where
  "updatePrompt big net promptId personaName systemPrompt taskPrompt hist =
     fetch net (updatePrompt_request big promptId personaName systemPrompt taskPrompt) hist"

text \<open>
  \<open>buildPersonaAPIBody\<close> reads only fields that both request shapes have, so it takes
  the common part. Its \<open>promptId\<close> is whatever value the caller obtained: the declared
  type is number, but the value comes from a parsed body.
\<close>

definition buildPersonaAPIBody :: "'a PersonaCreationRequest_scheme \<Rightarrow> jsval \<Rightarrow> jsval" where
  "buildPersonaAPIBody creationRequest promptId = Obj
     [(lit ''name'', Str (name creationRequest)),
      (lit ''description'', Str (description creationRequest)),
      (lit ''shared'', Bool True),
      (lit ''num_chunks'', nullable Num (num_chunks creationRequest)),
      (lit ''llm_relevance_filter'', nullable Bool (llm_relevance_filter creationRequest)),
      (lit ''llm_filter_extraction'', Bool False),
      (lit ''recency_bias'', Str (lit ''base_decay'')),
      (lit ''prompt_ids'', Arr [promptId]),
      (lit ''document_set_ids'', Arr (map Num (document_set_ids creationRequest))),
      (lit ''llm_model_version_override'',
         nullable Str (llm_model_version_override creationRequest))]"

subsection \<open>deletePersona\<close>

definition deletePersona_request :: "number_text \<Rightarrow> int \<Rightarrow> request" where
  "deletePersona_request big personaId =
     \<lparr>url = lit ''/api/admin/persona/'' @ Number_toString big personaId, http_method = DELETE,
      headers = [], body = None\<rparr>"

definition deletePersona ::
  "number_text \<Rightarrow> network \<Rightarrow> int \<Rightarrow> request list \<Rightarrow> response promise \<times> request list" where
  "deletePersona big net personaId hist = fetch net (deletePersona_request big personaId) hist"

subsection \<open>createPersona\<close>

text \<open>
  The id read off a prompt response, as both operations do it:
  \<^verbatim>\<open>r.ok ? (await r.json()).id : null\<close>.
\<close>

definition response_id :: "response \<Rightarrow> jsval promise" where
  "response_id r =
     (if ok r then (case json r of Inl e \<Rightarrow> Inl e | Inr b \<Rightarrow> get_property b (lit ''id''))
      else Inr Null)"

definition createPersona_request :: "PersonaCreationRequest \<Rightarrow> jsval \<Rightarrow> request" where
  "createPersona_request personaCreationRequest promptId =
     \<lparr>url = lit ''/api/admin/persona'', http_method = POST, headers = json_headers,
      body = JSON_stringify (buildPersonaAPIBody personaCreationRequest promptId)\<rparr>"

definition createPersona ::
  "network \<Rightarrow> PersonaCreationRequest \<Rightarrow> request list
     \<Rightarrow> (response \<times> response option) promise \<times> request list" where
  "createPersona net personaCreationRequest hist =
     (case createPrompt net (name personaCreationRequest) (system_prompt personaCreationRequest)
             (task_prompt personaCreationRequest) hist of
        (Inl e, h1) \<Rightarrow> (Inl e, h1)
      | (Inr createPromptResponse, h1) \<Rightarrow>
          (case response_id createPromptResponse of
             Inl e \<Rightarrow> (Inl e, h1)
           | Inr promptId \<Rightarrow>
               if promptId \<noteq> Null
               then (case fetch net (createPersona_request personaCreationRequest promptId) h1 of
                       (Inl e, h2) \<Rightarrow> (Inl e, h2)
                     | (Inr createPersonaResponse, h2) \<Rightarrow>
                         (Inr (createPromptResponse, Some createPersonaResponse), h2))
               else (Inr (createPromptResponse, None), h1)))"

subsection \<open>updatePersona\<close>

text \<open>
  The first half of \<open>updatePersona\<close>, under its comment "first update prompt": it
  leaves the prompt response and \<open>promptId\<close>.
\<close>

definition updatePersona_prompt ::
  "number_text \<Rightarrow> network \<Rightarrow> PersonaUpdateRequest \<Rightarrow> request list
     \<Rightarrow> (response \<times> jsval) promise \<times> request list" where
  "updatePersona_prompt big net personaUpdateRequest hist =
     (case existingPromptId personaUpdateRequest of
        Some existing \<Rightarrow>
          (case updatePrompt big net existing (name personaUpdateRequest)
                  (system_prompt personaUpdateRequest) (task_prompt personaUpdateRequest) hist of
             (Inl e, h1) \<Rightarrow> (Inl e, h1)
           | (Inr promptResponse, h1) \<Rightarrow> (Inr (promptResponse, Num existing), h1))
      | None \<Rightarrow>
          (case createPrompt net (name personaUpdateRequest) (system_prompt personaUpdateRequest)
                  (task_prompt personaUpdateRequest) hist of
             (Inl e, h1) \<Rightarrow> (Inl e, h1)
           | (Inr promptResponse, h1) \<Rightarrow>
               (case response_id promptResponse of
                  Inl e \<Rightarrow> (Inl e, h1)
                | Inr promptId \<Rightarrow> (Inr (promptResponse, promptId), h1))))"

definition updatePersona_request ::
  "number_text \<Rightarrow> PersonaUpdateRequest \<Rightarrow> jsval \<Rightarrow> request" where
  "updatePersona_request big personaUpdateRequest promptId =
     \<lparr>url = lit ''/api/admin/persona/'' @ Number_toString big (id' personaUpdateRequest),
      http_method = PATCH, headers = json_headers,
      body = JSON_stringify (buildPersonaAPIBody personaUpdateRequest promptId)\<rparr>"

definition updatePersona ::
  "number_text \<Rightarrow> network \<Rightarrow> PersonaUpdateRequest \<Rightarrow> request list
     \<Rightarrow> (response \<times> response option) promise \<times> request list" where
  "updatePersona big net personaUpdateRequest hist =
     (case updatePersona_prompt big net personaUpdateRequest hist of
        (Inl e, h1) \<Rightarrow> (Inl e, h1)
      | (Inr (promptResponse, promptId), h1) \<Rightarrow>
          if ok promptResponse \<and> ToBoolean promptId
          then (case fetch net (updatePersona_request big personaUpdateRequest promptId) h1 of
                  (Inl e, h2) \<Rightarrow> (Inl e, h2)
                | (Inr updatePersonaResponse, h2) \<Rightarrow>
                    (Inr (promptResponse, Some updatePersonaResponse), h2))
          else (Inr (promptResponse, None), h1))"

subsection \<open>buildFinalPrompt\<close>

text \<open>
  \<^verbatim>\<open>encodeURIComponent\<close> is the platform's: ECMA-262, abstract operation Encode with
  the unreserved set of URI components. A code unit of that set stays; any other
  character is read as a code point (a surrogate pair is one code point), written in
  UTF-8, and each octet becomes \<^verbatim>\<open>%\<close> and two upper-case hexadecimal digits. A
  surrogate without its partner is a URIError.
\<close>

definition unescaped :: "16 word \<Rightarrow> bool" where
  "unescaped c =
     (let u = unat c in
      (0x41 \<le> u \<and> u \<le> 0x5A) \<or> (0x61 \<le> u \<and> u \<le> 0x7A) \<or> (0x30 \<le> u \<and> u \<le> 0x39)
      \<or> u \<in> {0x2D, 0x5F, 0x2E, 0x21, 0x7E, 0x2A, 0x27, 0x28, 0x29})"

definition leading_surrogate :: "16 word \<Rightarrow> bool" where
  "leading_surrogate c = (0xD800 \<le> unat c \<and> unat c \<le> 0xDBFF)"

definition trailing_surrogate :: "16 word \<Rightarrow> bool" where
  "trailing_surrogate c = (0xDC00 \<le> unat c \<and> unat c \<le> 0xDFFF)"

definition pair_code_point :: "16 word \<Rightarrow> 16 word \<Rightarrow> nat" where
  "pair_code_point lead trail =
     (unat lead - 0xD800) * 0x400 + (unat trail - 0xDC00) + 0x10000"

definition utf8 :: "nat \<Rightarrow> nat list" where
  "utf8 cp =
     (if cp < 0x80 then [cp]
      else if cp < 0x800 then [0xC0 + cp div 0x40, 0x80 + cp mod 0x40]
      else if cp < 0x10000
        then [0xE0 + cp div 0x1000, 0x80 + cp div 0x40 mod 0x40, 0x80 + cp mod 0x40]
      else [0xF0 + cp div 0x40000, 0x80 + cp div 0x1000 mod 0x40,
            0x80 + cp div 0x40 mod 0x40, 0x80 + cp mod 0x40])"

definition hex_unit :: "nat \<Rightarrow> 16 word" where
  "hex_unit d = of_nat (if d < 10 then 0x30 + d else 0x37 + d)"

definition percent :: "nat \<Rightarrow> jsstring" where
  "percent octet = [0x25, hex_unit (octet div 16), hex_unit (octet mod 16)]"

definition escape :: "nat \<Rightarrow> jsstring" where
  "escape cp = concat (map percent (utf8 cp))"

fun Encode :: "jsstring \<Rightarrow> js_error + jsstring" where
  "Encode [] = Inr []"
| "Encode (c # cs) =
     (if unescaped c then (case Encode cs of Inl e \<Rightarrow> Inl e | Inr r \<Rightarrow> Inr (c # r))
      else if trailing_surrogate c then Inl URIError
      else if leading_surrogate c then
        (case cs of
           [] \<Rightarrow> Inl URIError
         | d # ds \<Rightarrow>
             if trailing_surrogate d
             then (case Encode ds of
                     Inl e \<Rightarrow> Inl e
                   | Inr r \<Rightarrow> Inr (escape (pair_code_point c d) @ r))
             else Inl URIError)
      else (case Encode cs of Inl e \<Rightarrow> Inl e | Inr r \<Rightarrow> Inr (escape (unat c) @ r)))"

text \<open>
  The argument of \<^verbatim>\<open>encodeURIComponent\<close> is converted to a string first. What
  the source passes is a key, which is a string, or a value of the object literal, which
  is a string or a boolean.
\<close>

datatype uri_component = UriString jsstring | UriBoolean bool

fun ToString :: "uri_component \<Rightarrow> jsstring" where
  "ToString (UriString s) = s"
| "ToString (UriBoolean b) = Boolean_toString b"

definition encodeURIComponent :: "uri_component \<Rightarrow> js_error + jsstring" where
  "encodeURIComponent uriComponent = Encode (ToString uriComponent)"

text \<open>\<^verbatim>\<open>Array.prototype.join\<close> on strings.\<close>

fun join :: "jsstring \<Rightarrow> jsstring list \<Rightarrow> jsstring" where
  "join sep [] = []"
| "join sep [x] = x"
| "join sep (x # y # ys) = x @ sep @ join sep (y # ys)"

text \<open>
  \<^verbatim>\<open>Array.prototype.map\<close> with a callback that may throw: the first exception ends
  the traversal.
\<close>

fun map_throwing :: "('a \<Rightarrow> js_error + 'b) \<Rightarrow> 'a list \<Rightarrow> js_error + 'b list" where
  "map_throwing f [] = Inr []"
| "map_throwing f (x # xs) =
     (case f x of
        Inl e \<Rightarrow> Inl e
      | Inr y \<Rightarrow> (case map_throwing f xs of Inl e \<Rightarrow> Inl e | Inr ys \<Rightarrow> Inr (y # ys)))"

text \<open>The callback of the source: \<^verbatim>\<open>`${encodeURIComponent(key)}=${encodeURIComponent(value)}`\<close>.\<close>

definition encode_entry :: "jsstring \<times> uri_component \<Rightarrow> js_error + jsstring" where
  "encode_entry kv =
     (case encodeURIComponent (UriString (fst kv)) of
        Inl e \<Rightarrow> Inl e
      | Inr k \<Rightarrow>
          (case encodeURIComponent (snd kv) of
             Inl e \<Rightarrow> Inl e
           | Inr v \<Rightarrow> Inr (k @ lit ''='' @ v)))"

text \<open>
  \<^verbatim>\<open>Object.entries\<close> of the object literal of the source: its own properties in
  insertion order.
\<close>

definition prompt_explorer_entries ::
  "jsstring \<Rightarrow> jsstring \<Rightarrow> bool \<Rightarrow> (jsstring \<times> uri_component) list" where
  "prompt_explorer_entries systemPrompt taskPrompt retrievalDisabled =
     [(lit ''system_prompt'', UriString systemPrompt),
      (lit ''task_prompt'', UriString taskPrompt),
      (lit ''retrieval_disabled'', UriBoolean retrievalDisabled)]"

definition buildFinalPrompt_request :: "jsstring \<Rightarrow> request" where
  "buildFinalPrompt_request queryString =
     \<lparr>url = lit ''/api/persona/utils/prompt-explorer?'' @ queryString, http_method = GET,
      headers = [], body = None\<rparr>"

text \<open>
  \<open>buildFinalPrompt\<close> is not an async function: an exception while the query string is
  built is thrown to the caller (the outer \<open>Inl\<close>); otherwise the caller gets the
  promise of \<^verbatim>\<open>fetch\<close>.
\<close>

definition buildFinalPrompt ::
  "network \<Rightarrow> jsstring \<Rightarrow> jsstring \<Rightarrow> bool \<Rightarrow> request list
     \<Rightarrow> (js_error + response promise) \<times> request list" where
  "buildFinalPrompt net systemPrompt taskPrompt retrievalDisabled hist =
     (case map_throwing encode_entry
             (prompt_explorer_entries systemPrompt taskPrompt retrievalDisabled) of
        Inl e \<Rightarrow> (Inl e, hist)
      | Inr parts \<Rightarrow>
          (let queryString = join (lit ''&'') parts;
               (p, h1) = fetch net (buildFinalPrompt_request queryString) hist
           in (Inr p, h1)))"

subsection \<open>Observations used to state the properties\<close>

text \<open>A property of the JSON object a request carries as its body.\<close>

definition body_property :: "request \<Rightarrow> jsstring \<Rightarrow> jsval option" where
  "body_property rq k = (case body rq of Some (Obj ps) \<Rightarrow> map_of ps k | _ \<Rightarrow> None)"

text \<open>The calls an operation added to the history it started from.\<close>

definition issued :: "request list \<Rightarrow> 'a \<times> request list \<Rightarrow> request list" where
  "issued hist res = drop (length hist) (snd res)"

text \<open>A persona-update call for the persona \<open>i\<close>: a PATCH to \<^verbatim>\<open>/api/admin/persona/{i}\<close>.\<close>

definition is_persona_update :: "number_text \<Rightarrow> int \<Rightarrow> request \<Rightarrow> bool" where
  "is_persona_update big i q =
     (http_method q = PATCH \<and> url q = lit ''/api/admin/persona/'' @ Number_toString big i)"

text \<open>
  A parsed body without an \<open>id\<close> field: an object that lacks the property, and every
  value that is not an object.
\<close>

definition has_no_id :: "jsval \<Rightarrow> bool" where
  "has_no_id b = (case b of Obj ps \<Rightarrow> map_of ps (lit ''id'') = None | _ \<Rightarrow> True)"

text \<open>A string in which every surrogate code unit is half of a pair.\<close>

fun well_formed :: "jsstring \<Rightarrow> bool" where
  "well_formed [] = True"
| "well_formed (c # cs) =
     (if leading_surrogate c
      then (case cs of [] \<Rightarrow> False | d # ds \<Rightarrow> trailing_surrogate d \<and> well_formed ds)
      else \<not> trailing_surrogate c \<and> well_formed cs)"

text \<open>The code units \<^verbatim>\<open>encodeURIComponent\<close> can put out: unreserved ones, \<^verbatim>\<open>%\<close>, hex digits.\<close>

definition uri_safe :: "16 word \<Rightarrow> bool" where
  "uri_safe c = (unescaped c \<or> c = 0x25)"

subsection \<open>Sample inputs\<close>

definition sample_creation :: PersonaCreationRequest where
  "sample_creation =
     \<lparr>name = lit ''helper'', description = lit ''answers questions'',
      system_prompt = lit ''be brief'', task_prompt = lit ''answer'',
      document_set_ids = [3, 4], num_chunks = Some 10, llm_relevance_filter = None,
      llm_model_version_override = None\<rparr>"

definition sample_update :: "int option \<Rightarrow> PersonaUpdateRequest" where
  "sample_update existing =
     \<lparr>name = lit ''helper'', description = lit ''answers questions'',
      system_prompt = lit ''be brief'', task_prompt = lit ''answer'',
      document_set_ids = [3, 4], num_chunks = Some 10, llm_relevance_filter = None,
      llm_model_version_override = None, id' = 12, existingPromptId = existing\<rparr>"

text \<open>A response with the given flag and body, and a network that always answers with it.\<close>

definition reply :: "bool \<Rightarrow> jsval option \<Rightarrow> response" where
  "reply flag parsed = \<lparr>ok = flag, status = (if flag then 200 else 500), json_body = parsed\<rparr>"

definition always :: "response \<Rightarrow> network" where
  "always r hist rq = Inr r"

section \<open>Properties\<close>

subsection \<open>Auxiliary facts\<close>

lemma nullable_not_Undefined [simp]:
  "nullable Num x \<noteq> Undefined" "nullable Bool y \<noteq> Undefined" "nullable Str z \<noteq> Undefined"
  by (simp_all add: nullable_def split: option.splits)

lemma serialise_nullable [simp]:
  "serialise (nullable Num x) = nullable Num x"
  "serialise (nullable Bool y) = nullable Bool y"
  "serialise (nullable Str z) = nullable Str z"
  by (simp_all add: nullable_def split: option.splits)

lemma serialise_elements_Num [simp]: "serialise_elements (map Num xs) = map Num xs"
  by (induction xs) simp_all

text \<open>The persona body as it goes on the wire.\<close>

lemma JSON_stringify_buildPersonaAPIBody:
  "JSON_stringify (buildPersonaAPIBody rq promptId) = Some (Obj
     [(lit ''name'', Str (name rq)),
      (lit ''description'', Str (description rq)),
      (lit ''shared'', Bool True),
      (lit ''num_chunks'', nullable Num (num_chunks rq)),
      (lit ''llm_relevance_filter'', nullable Bool (llm_relevance_filter rq)),
      (lit ''llm_filter_extraction'', Bool False),
      (lit ''recency_bias'', Str (lit ''base_decay'')),
      (lit ''prompt_ids'', Arr [if promptId = Undefined then Null else serialise promptId]),
      (lit ''document_set_ids'', Arr (map Num (document_set_ids rq))),
      (lit ''llm_model_version_override'', nullable Str (llm_model_version_override rq))])"
  by (simp add: JSON_stringify_def buildPersonaAPIBody_def)

lemma persona_wire_prompt_ids:
  "map_of
     [(lit ''name'', a), (lit ''description'', b), (lit ''shared'', c), (lit ''num_chunks'', d),
      (lit ''llm_relevance_filter'', e), (lit ''llm_filter_extraction'', f),
      (lit ''recency_bias'', g), (lit ''prompt_ids'', h), (lit ''document_set_ids'', i),
      (lit ''llm_model_version_override'', j)] (lit ''prompt_ids'') = Some h"
  by (simp add: lit_def)

subsection \<open>deletePersona\<close>

lemma Number_toString_beyond_safe: "\<not> safe_integer i \<Longrightarrow> Number_toString big i = big i"
  by (simp add: Number_toString_def)

text \<open>
  The id \<open>10\<^sup>2\<^sup>1\<close> is not a safe integer: its text is the platform's, and on a platform
  that prints it as \<^verbatim>\<open>1e+21\<close> the URL ends in \<^verbatim>\<open>1e+21\<close>.
\<close>

lemma deletePersona_request_1e21:
  "big (10 ^ 21) = lit ''1e+21'' \<Longrightarrow>
   url (deletePersona_request big (10 ^ 21)) = lit ''/api/admin/persona/1e+21''"
  by (simp add: deletePersona_request_def Number_toString_def safe_integer_def lit_def)

lemma deletePersona_request_99: "url (deletePersona_request big 99) = lit ''/api/admin/persona/99''"
  by (simp add: deletePersona_request_def Number_toString_def safe_integer_def decimal.simps digit_unit_def lit_def)

text \<open>
  C9. For every \<open>personaId\<close>, \<open>deletePersona\<close> issues exactly one request, a DELETE to
  \<^verbatim>\<open>/api/admin/persona/{personaId}\<close> without a body, and nothing else: the history grows
  by that one request. The id stands in the URL as the platform writes a number, whatever
  the platform's text for numbers beyond the safe integers is. What \<open>deletePersona\<close>
  returns is the promise of that \<^verbatim>\<open>fetch\<close>, untouched. For the id 99 the URL is
  \<^verbatim>\<open>/api/admin/persona/99\<close>.
\<close>

theorem deletePersona_single_request:
  "deletePersona big net personaId hist =
     (net hist (deletePersona_request big personaId), hist @ [deletePersona_request big personaId])
   \<and> issued hist (deletePersona big net personaId hist) = [deletePersona_request big personaId]
   \<and> http_method (deletePersona_request big personaId) = DELETE
   \<and> url (deletePersona_request big personaId) = lit ''/api/admin/persona/'' @ Number_toString big personaId
   \<and> body (deletePersona_request big personaId) = None
   \<and> url (deletePersona_request big 99) = lit ''/api/admin/persona/99''"
  by (simp add: deletePersona_def fetch_def issued_def deletePersona_request_99)
     (simp add: deletePersona_request_def)

subsection \<open>createPersona\<close>

lemma createPersona_prompt_rejected:
  assumes "net hist (createPrompt_request (name rq) (system_prompt rq) (task_prompt rq)) = Inl e"
  shows "createPersona net rq hist =
           (Inl e, hist @ [createPrompt_request (name rq) (system_prompt rq) (task_prompt rq)])"
  using assms by (simp add: createPersona_def createPrompt_def fetch_def)

lemma createPersona_id_rejected:
  assumes "net hist (createPrompt_request (name rq) (system_prompt rq) (task_prompt rq)) = Inr r"
    and "response_id r = Inl e"
  shows "createPersona net rq hist =
           (Inl e, hist @ [createPrompt_request (name rq) (system_prompt rq) (task_prompt rq)])"
  using assms by (simp add: createPersona_def createPrompt_def fetch_def)

lemma createPersona_skipped:
  assumes "net hist (createPrompt_request (name rq) (system_prompt rq) (task_prompt rq)) = Inr r"
    and "response_id r = Inr Null"
  shows "createPersona net rq hist =
           (Inr (r, None), hist @ [createPrompt_request (name rq) (system_prompt rq) (task_prompt rq)])"
  using assms by (simp add: createPersona_def createPrompt_def fetch_def)

lemma createPersona_posted:
  assumes "net hist (createPrompt_request (name rq) (system_prompt rq) (task_prompt rq)) = Inr r"
    and "response_id r = Inr promptId" and "promptId \<noteq> Null"
  shows "createPersona net rq hist =
           (case net (hist @ [createPrompt_request (name rq) (system_prompt rq) (task_prompt rq)])
                     (createPersona_request rq promptId) of
              Inl e \<Rightarrow> Inl e
            | Inr r2 \<Rightarrow> Inr (r, Some r2),
            hist @ [createPrompt_request (name rq) (system_prompt rq) (task_prompt rq),
                    createPersona_request rq promptId])"
  using assms by (simp add: createPersona_def createPrompt_def fetch_def split: sum.splits)

lemma createPersona_request_prompt_ids:
  "body_property (createPersona_request rq promptId) (lit ''prompt_ids'') =
     Some (Arr [if promptId = Undefined then Null else serialise promptId])"
  by (simp only: body_property_def createPersona_request_def request.simps
        JSON_stringify_buildPersonaAPIBody option.case jsval.case persona_wire_prompt_ids)

text \<open>
  C2. Whenever the prompt endpoint answers the create-Prompt call with a successful
  response whose body is \<^verbatim>\<open>{id: 7}\<close>, \<open>createPersona\<close> issues two calls: the
  create-Prompt call and then one POST to \<^verbatim>\<open>/api/admin/persona\<close> whose body has
  \<open>prompt_ids = [7]\<close>. Its result is the pair of the two responses (the promise of the
  second \<^verbatim>\<open>fetch\<close> decides whether there is a second response at all).
\<close>

theorem createPersona_prompt_id_7:
  assumes "net hist (createPrompt_request (name rq) (system_prompt rq) (task_prompt rq)) = Inr r"
    and "ok r"
    and "json_body r = Some (Obj [(lit ''id'', Num 7)])"
  shows "issued hist (createPersona net rq hist) =
           [createPrompt_request (name rq) (system_prompt rq) (task_prompt rq),
            createPersona_request rq (Num 7)]
         \<and> url (createPersona_request rq (Num 7)) = lit ''/api/admin/persona''
         \<and> http_method (createPersona_request rq (Num 7)) = POST
         \<and> body_property (createPersona_request rq (Num 7)) (lit ''prompt_ids'') = Some (Arr [Num 7])
         \<and> fst (createPersona net rq hist) =
             (case net (hist @ [createPrompt_request (name rq) (system_prompt rq) (task_prompt rq)])
                       (createPersona_request rq (Num 7)) of
                Inl e \<Rightarrow> Inl e
              | Inr r2 \<Rightarrow> Inr (r, Some r2))"
proof -
  have rid: "response_id r = Inr (Num 7)"
    using assms(2,3) by (simp add: response_id_def json_def)
  have run: "createPersona net rq hist =
      (case net (hist @ [createPrompt_request (name rq) (system_prompt rq) (task_prompt rq)])
                (createPersona_request rq (Num 7)) of
         Inl e \<Rightarrow> Inl e
       | Inr r2 \<Rightarrow> Inr (r, Some r2),
       hist @ [createPrompt_request (name rq) (system_prompt rq) (task_prompt rq),
               createPersona_request rq (Num 7)])"
    using createPersona_posted [of net hist rq r "Num 7"] assms(1) rid by simp
  have shape: "url (createPersona_request rq (Num 7)) = lit ''/api/admin/persona''
      \<and> http_method (createPersona_request rq (Num 7)) = POST"
    by (simp add: createPersona_request_def)
  have ids: "body_property (createPersona_request rq (Num 7)) (lit ''prompt_ids'') = Some (Arr [Num 7])"
    by (simp add: createPersona_request_prompt_ids)
  show ?thesis
    using shape ids by (simp add: run issued_def)
qed

theorem createPersona_prompt_id_7_witness:
  "always (reply True (Some (Obj [(lit ''id'', Num 7)]))) []
      (createPrompt_request (name sample_creation) (system_prompt sample_creation)
         (task_prompt sample_creation))
     = Inr (reply True (Some (Obj [(lit ''id'', Num 7)])))
   \<and> ok (reply True (Some (Obj [(lit ''id'', Num 7)])))
   \<and> issued [] (createPersona (always (reply True (Some (Obj [(lit ''id'', Num 7)])))) sample_creation [])
       = [createPrompt_request (lit ''helper'') (lit ''be brief'') (lit ''answer''),
          createPersona_request sample_creation (Num 7)]
   \<and> body_property (createPersona_request sample_creation (Num 7)) (lit ''prompt_ids'')
       = Some (Arr [Num 7])
   \<and> fst (createPersona (always (reply True (Some (Obj [(lit ''id'', Num 7)])))) sample_creation [])
       = Inr (reply True (Some (Obj [(lit ''id'', Num 7)])),
              Some (reply True (Some (Obj [(lit ''id'', Num 7)]))))"
  using createPersona_prompt_id_7
    [of "always (reply True (Some (Obj [(lit ''id'', Num 7)])))" "[]" sample_creation
        "reply True (Some (Obj [(lit ''id'', Num 7)]))"]
  by (simp add: always_def reply_def sample_creation_def)

lemma response_id_not_ok: "\<not> ok r \<Longrightarrow> response_id r = Inr Null"
  by (simp add: response_id_def)

lemma response_id_unparsed: "ok r \<Longrightarrow> json_body r = None \<Longrightarrow> response_id r = Inl SyntaxError"
  by (simp add: response_id_def json_def)

lemma response_id_object:
  "ok r \<Longrightarrow> json_body r = Some (Obj ps) \<Longrightarrow>
   response_id r = Inr (case map_of ps (lit ''id'') of None \<Rightarrow> Undefined | Some v \<Rightarrow> v)"
  by (simp add: response_id_def json_def)

text \<open>
  Property 2 of the specification: a failed prompt call ends \<open>createPersona\<close> with
  the prompt response and no persona call.
\<close>

lemma createPersona_prompt_not_ok:
  assumes "net hist (createPrompt_request (name rq) (system_prompt rq) (task_prompt rq)) = Inr r"
    and "\<not> ok r"
  shows "createPersona net rq hist =
           (Inr (r, None), hist @ [createPrompt_request (name rq) (system_prompt rq) (task_prompt rq)])"
  using assms by (simp add: createPersona_skipped response_id_not_ok)

text \<open>
  C1. The claim holds for a failed prompt call (the lemma above), and fails on a
  successful response whose body has no \<open>id\<close>: the id read is \<^verbatim>\<open>undefined\<close>, the
  guard \<^verbatim>\<open>promptId !== null\<close> lets it through, and the persona POST goes out with
  \<open>prompt_ids = [undefined]\<close>, on the wire \<open>[null]\<close>. Evaluated on the body \<^verbatim>\<open>{}\<close>:
  two calls are issued and the second element of the pair is a response.
\<close>

theorem createPersona_body_without_id:
  "createPersona (always (reply True (Some (Obj [])))) sample_creation [] =
     (Inr (reply True (Some (Obj [])), Some (reply True (Some (Obj [])))),
      [createPrompt_request (lit ''helper'') (lit ''be brief'') (lit ''answer''),
       createPersona_request sample_creation Undefined])
   \<and> response_id (reply True (Some (Obj []))) = Inr Undefined
   \<and> http_method (createPersona_request sample_creation Undefined) = POST
   \<and> url (createPersona_request sample_creation Undefined) = lit ''/api/admin/persona''
   \<and> body_property (createPersona_request sample_creation Undefined) (lit ''prompt_ids'')
       = Some (Arr [Null])"
proof -
  have rid: "response_id (reply True (Some (Obj []))) = Inr Undefined"
    by (simp add: response_id_def json_def reply_def)
  have run: "createPersona (always (reply True (Some (Obj [])))) sample_creation [] =
     (Inr (reply True (Some (Obj [])), Some (reply True (Some (Obj [])))),
      [createPrompt_request (lit ''helper'') (lit ''be brief'') (lit ''answer''),
       createPersona_request sample_creation Undefined])"
    using createPersona_posted
      [of "always (reply True (Some (Obj [])))" "[]" sample_creation
          "reply True (Some (Obj []))" Undefined] rid
    by (simp add: always_def sample_creation_def)
  have shape: "http_method (createPersona_request sample_creation Undefined) = POST
     \<and> url (createPersona_request sample_creation Undefined) = lit ''/api/admin/persona''"
    by (simp add: createPersona_request_def)
  show ?thesis
    using rid run shape by (simp add: createPersona_request_prompt_ids)
qed

subsection \<open>updatePersona\<close>

lemma updatePersona_prompt_existing:
  assumes "existingPromptId rq = Some n"
  shows "updatePersona_prompt big net rq hist =
           (case net hist (updatePrompt_request big n (name rq) (system_prompt rq) (task_prompt rq)) of
              Inl e \<Rightarrow> Inl e
            | Inr r \<Rightarrow> Inr (r, Num n),
            hist @ [updatePrompt_request big n (name rq) (system_prompt rq) (task_prompt rq)])"
  using assms
  by (simp add: updatePersona_prompt_def updatePrompt_def fetch_def split: sum.splits)

lemma updatePersona_prompt_absent:
  assumes "existingPromptId rq = None"
  shows "updatePersona_prompt big net rq hist =
           (case net hist (createPrompt_request (name rq) (system_prompt rq) (task_prompt rq)) of
              Inl e \<Rightarrow> Inl e
            | Inr r \<Rightarrow> (case response_id r of Inl e \<Rightarrow> Inl e | Inr i \<Rightarrow> Inr (r, i)),
            hist @ [createPrompt_request (name rq) (system_prompt rq) (task_prompt rq)])"
  using assms
  by (simp add: updatePersona_prompt_def createPrompt_def fetch_def split: sum.splits)

lemma updatePersona_prompt_rejected:
  assumes "updatePersona_prompt big net rq hist = (Inl e, h1)"
  shows "updatePersona big net rq hist = (Inl e, h1)"
  using assms by (simp add: updatePersona_def)

lemma updatePersona_after_prompt:
  assumes "updatePersona_prompt big net rq hist = (Inr (promptResponse, promptId), h1)"
  shows "updatePersona big net rq hist =
           (if ok promptResponse \<and> ToBoolean promptId
            then (case net h1 (updatePersona_request big rq promptId) of
                    Inl e \<Rightarrow> Inl e
                  | Inr r2 \<Rightarrow> Inr (promptResponse, Some r2),
                  h1 @ [updatePersona_request big rq promptId])
            else (Inr (promptResponse, None), h1))"
  using assms by (simp add: updatePersona_def fetch_def split: sum.splits)

lemma updatePersona_request_prompt_ids:
  "body_property (updatePersona_request big rq promptId) (lit ''prompt_ids'') =
     Some (Arr [if promptId = Undefined then Null else serialise promptId])"
  by (simp only: body_property_def updatePersona_request_def request.simps
        JSON_stringify_buildPersonaAPIBody option.case jsval.case persona_wire_prompt_ids)

lemma updatePersona_request_shape:
  "url (updatePersona_request big rq promptId) = lit ''/api/admin/persona/'' @ Number_toString big (id' rq)
   \<and> http_method (updatePersona_request big rq promptId) = PATCH"
  by (simp add: updatePersona_request_def)

lemma buildPersonaAPIBody_prompt_ids:
  "get_property (buildPersonaAPIBody rq promptId) (lit ''prompt_ids'') = Inr (Arr [promptId])"
  by (simp only: buildPersonaAPIBody_def get_property.simps persona_wire_prompt_ids option.case)

lemma response_id_missing:
  assumes "ok r" and "json_body r = Some b"
    and "has_no_id b" and "b \<noteq> Null" and "b \<noteq> Undefined"
  shows "response_id r = Inr Undefined"
  using assms by (cases b) (simp_all add: response_id_def json_def has_no_id_def)

lemma response_id_null:
  assumes "ok r" and "json_body r = Some Null"
  shows "response_id r = Inl TypeError"
  using assms by (simp add: response_id_def json_def)

text \<open>
  A successful prompt response whose body is \<^verbatim>\<open>null\<close>: reading \<open>id\<close> off it is a
  TypeError, and both operations end there, with the prompt call as their only call.
\<close>

lemma null_body_rejects:
  assumes "net hist (createPrompt_request (name rq) (system_prompt rq) (task_prompt rq)) = Inr r"
    and "ok r"
    and "json_body r = Some Null"
    and "existingPromptId urq = None"
    and "net hist (createPrompt_request (name urq) (system_prompt urq) (task_prompt urq)) = Inr r"
  shows "createPersona net rq hist =
           (Inl TypeError,
            hist @ [createPrompt_request (name rq) (system_prompt rq) (task_prompt rq)])
         \<and> updatePersona big net urq hist =
           (Inl TypeError,
            hist @ [createPrompt_request (name urq) (system_prompt urq) (task_prompt urq)])"
proof -
  have rid: "response_id r = Inl TypeError"
    using assms(2,3) by (rule response_id_null)
  have step: "updatePersona_prompt big net urq hist =
      (Inl TypeError,
       hist @ [createPrompt_request (name urq) (system_prompt urq) (task_prompt urq)])"
    using assms(4,5) rid by (simp add: updatePersona_prompt_absent)
  show ?thesis
    using createPersona_id_rejected [of net hist rq r TypeError] assms(1) rid
      updatePersona_prompt_rejected [of big net urq hist TypeError] step
    by simp
qed

text \<open>
  C6 as claimed, for every successful response whose parsed body has no \<open>id\<close> field, does
  not hold: the body \<^verbatim>\<open>null\<close> has no such field, and on it \<open>createPersona\<close> issues no
  persona call; it is rejected with a TypeError after the prompt call.
\<close>

theorem createPersona_null_body:
  "ok (reply True (Some Null))
   \<and> json_body (reply True (Some Null)) = Some Null
   \<and> has_no_id Null
   \<and> createPersona (always (reply True (Some Null))) sample_creation [] =
       (Inl TypeError,
        [createPrompt_request (lit ''helper'') (lit ''be brief'') (lit ''answer'')])"
proof -
  have r: "ok (reply True (Some Null))" "json_body (reply True (Some Null)) = Some Null"
    by (simp_all add: reply_def)
  have run: "createPersona (always (reply True (Some Null))) sample_creation [] =
       (Inl TypeError,
        [createPrompt_request (lit ''helper'') (lit ''be brief'') (lit ''answer'')])"
    using createPersona_id_rejected
      [of "always (reply True (Some Null))" "[]" sample_creation "reply True (Some Null)" TypeError]
      response_id_null [OF r]
    by (simp add: always_def sample_creation_def)
  show ?thesis
    using r run by (simp add: has_no_id_def)
qed

text \<open>
  C6, amended. A successful create-Prompt response whose parsed body is not \<^verbatim>\<open>null\<close>
  and has no \<open>id\<close> field (an object without it, an array, a string, a number, a boolean;
  a parsed body is never \<^verbatim>\<open>undefined\<close>) makes the id \<^verbatim>\<open>undefined\<close>. \<open>createPersona\<close> then
  still issues the persona POST, its body built with \<open>prompt_ids = [undefined]\<close>;
  \<open>updatePersona\<close> without an existing prompt id, given the same response, finds
  \<^verbatim>\<open>undefined\<close> falsy, issues no persona call and returns the prompt response with
  \<^verbatim>\<open>null\<close>.
\<close>

theorem missing_id_create_posts_update_skips:
  assumes "net hist (createPrompt_request (name rq) (system_prompt rq) (task_prompt rq)) = Inr r"
    and "ok r"
    and "json_body r = Some b"
    and "has_no_id b"
    and "b \<noteq> Null"
    and "b \<noteq> Undefined"
    and "existingPromptId urq = None"
    and "net hist (createPrompt_request (name urq) (system_prompt urq) (task_prompt urq)) = Inr r"
  shows "response_id r = Inr Undefined
         \<and> issued hist (createPersona net rq hist) =
             [createPrompt_request (name rq) (system_prompt rq) (task_prompt rq),
              createPersona_request rq Undefined]
         \<and> body (createPersona_request rq Undefined) =
             JSON_stringify (buildPersonaAPIBody rq Undefined)
         \<and> get_property (buildPersonaAPIBody rq Undefined) (lit ''prompt_ids'') =
             Inr (Arr [Undefined])
         \<and> updatePersona big net urq hist =
             (Inr (r, None),
              hist @ [createPrompt_request (name urq) (system_prompt urq) (task_prompt urq)])"
proof -
  have rid: "response_id r = Inr Undefined"
    using assms(2-6) by (rule response_id_missing)
  have create: "issued hist (createPersona net rq hist) =
      [createPrompt_request (name rq) (system_prompt rq) (task_prompt rq),
       createPersona_request rq Undefined]"
    using createPersona_posted [of net hist rq r Undefined] assms(1) rid
    by (simp add: issued_def)
  have step: "updatePersona_prompt big net urq hist =
      (Inr (r, Undefined),
       hist @ [createPrompt_request (name urq) (system_prompt urq) (task_prompt urq)])"
    using assms(7,8) rid by (simp add: updatePersona_prompt_absent)
  have update: "updatePersona big net urq hist =
      (Inr (r, None),
       hist @ [createPrompt_request (name urq) (system_prompt urq) (task_prompt urq)])"
    using updatePersona_after_prompt [of big net urq hist r Undefined] step by simp
  have built: "body (createPersona_request rq Undefined) =
      JSON_stringify (buildPersonaAPIBody rq Undefined)"
    by (simp add: createPersona_request_def)
  show ?thesis
    using rid create update built by (simp add: buildPersonaAPIBody_prompt_ids)
qed

theorem missing_id_create_posts_update_skips_witness:
  "\<forall>big.
   ok (reply True (Some (Arr [])))
   \<and> json_body (reply True (Some (Arr []))) = Some (Arr [])
   \<and> has_no_id (Arr []) \<and> Arr [] \<noteq> Null \<and> Arr [] \<noteq> Undefined
   \<and> existingPromptId (sample_update None) = None
   \<and> issued [] (createPersona (always (reply True (Some (Arr [])))) sample_creation []) =
       [createPrompt_request (lit ''helper'') (lit ''be brief'') (lit ''answer''),
        createPersona_request sample_creation Undefined]
   \<and> updatePersona big (always (reply True (Some (Arr [])))) (sample_update None) [] =
       (Inr (reply True (Some (Arr [])), None),
        [createPrompt_request (lit ''helper'') (lit ''be brief'') (lit ''answer'')])"
  (is "\<forall>big. ?P big")
proof
  fix big
  show "?P big"
    using missing_id_create_posts_update_skips
      [of "always (reply True (Some (Arr [])))" "[]" sample_creation
          "reply True (Some (Arr []))" "Arr []" "sample_update None" big]
    by (simp add: always_def reply_def sample_creation_def sample_update_def has_no_id_def)
qed

text \<open>
  C10. When the prompt response is successful and its body is not JSON, neither
  \<open>createPersona\<close> nor \<open>updatePersona\<close> without an existing prompt id returns a pair: the
  promise is rejected with the SyntaxError of \<^verbatim>\<open>json()\<close>, and the only call issued is
  the create-Prompt call.
\<close>

theorem unparsable_body_rejects:
  assumes "net hist (createPrompt_request (name rq) (system_prompt rq) (task_prompt rq)) = Inr r"
    and "ok r"
    and "json_body r = None"
    and "existingPromptId urq = None"
    and "net hist (createPrompt_request (name urq) (system_prompt urq) (task_prompt urq)) = Inr r"
  shows "createPersona net rq hist =
           (Inl SyntaxError,
            hist @ [createPrompt_request (name rq) (system_prompt rq) (task_prompt rq)])
         \<and> updatePersona big net urq hist =
           (Inl SyntaxError,
            hist @ [createPrompt_request (name urq) (system_prompt urq) (task_prompt urq)])"
proof -
  have rid: "response_id r = Inl SyntaxError"
    using assms(2,3) by (rule response_id_unparsed)
  have step: "updatePersona_prompt big net urq hist =
      (Inl SyntaxError,
       hist @ [createPrompt_request (name urq) (system_prompt urq) (task_prompt urq)])"
    using assms(4,5) rid by (simp add: updatePersona_prompt_absent)
  show ?thesis
    using createPersona_id_rejected [of net hist rq r SyntaxError] assms(1) rid
      updatePersona_prompt_rejected [of big net urq hist SyntaxError] step
    by simp
qed

theorem unparsable_body_rejects_witness:
  "\<forall>big.
   ok (reply True None)
   \<and> json_body (reply True None) = None
   \<and> existingPromptId (sample_update None) = None
   \<and> createPersona (always (reply True None)) sample_creation [] =
       (Inl SyntaxError, [createPrompt_request (lit ''helper'') (lit ''be brief'') (lit ''answer'')])
   \<and> updatePersona big (always (reply True None)) (sample_update None) [] =
       (Inl SyntaxError, [createPrompt_request (lit ''helper'') (lit ''be brief'') (lit ''answer'')])"
  (is "\<forall>big. ?P big")
proof
  fix big
  show "?P big"
    using unparsable_body_rejects
      [of "always (reply True None)" "[]" sample_creation "reply True None" "sample_update None" big]
    by (simp add: always_def reply_def sample_creation_def sample_update_def)
qed

lemma updatePrompt_request_shape:
  "url (updatePrompt_request big n pn sp tp) = lit ''/api/prompt/'' @ Number_toString big n
   \<and> http_method (updatePrompt_request big n pn sp tp) = PATCH"
  by (simp add: updatePrompt_request_def)

lemma createPrompt_request_shape:
  "url (createPrompt_request pn sp tp) = lit ''/api/prompt''
   \<and> http_method (createPrompt_request pn sp tp) = POST"
  by (simp add: createPrompt_request_def)

lemma Number_toString_0: "Number_toString big 0 = lit ''0''"
  by (simp add: Number_toString_def safe_integer_def decimal.simps digit_unit_def lit_def)

lemma updatePrompt_request_42:
  "url (updatePrompt_request big 42 pn sp tp) = lit ''/api/prompt/42''"
  by (simp add: updatePrompt_request_def Number_toString_def safe_integer_def decimal.simps digit_unit_def lit_def)

text \<open>
  With an existing prompt id that is not 0, the prompt call is the PATCH to
  \<^verbatim>\<open>/api/prompt/{id}\<close>, and after a successful answer the persona update goes out
  with \<open>prompt_ids = [id]\<close>.
\<close>

lemma updatePersona_existing_nonzero:
  assumes "existingPromptId rq = Some n"
    and "net hist (updatePrompt_request big n (name rq) (system_prompt rq) (task_prompt rq)) = Inr r"
    and "ok r" and "n \<noteq> 0"
  shows "issued hist (updatePersona big net rq hist) =
           [updatePrompt_request big n (name rq) (system_prompt rq) (task_prompt rq),
            updatePersona_request big rq (Num n)]
         \<and> body_property (updatePersona_request big rq (Num n)) (lit ''prompt_ids'') = Some (Arr [Num n])"
proof -
  have step: "updatePersona_prompt big net rq hist =
      (Inr (r, Num n),
       hist @ [updatePrompt_request big n (name rq) (system_prompt rq) (task_prompt rq)])"
    using assms(1,2) by (simp add: updatePersona_prompt_existing)
  show ?thesis
    using updatePersona_after_prompt [of big net rq hist r "Num n"] step assms(3,4)
    by (simp add: issued_def updatePersona_request_prompt_ids)
qed

text \<open>
  C3. The claim fails at the existing prompt id 0. The prompt call is the PATCH to
  \<^verbatim>\<open>/api/prompt/0\<close> and \<open>promptId\<close> is 0, as claimed; but after a successful answer
  the guard \<^verbatim>\<open>promptResponse.ok && promptId\<close> finds 0 falsy, so no persona update is
  issued and the second element of the pair is \<^verbatim>\<open>null\<close>.
\<close>

theorem updatePersona_existing_prompt_id_0:
  "\<forall>big.
   updatePersona big (always (reply True None)) (sample_update (Some 0)) [] =
     (Inr (reply True None, None),
      [updatePrompt_request big 0 (lit ''helper'') (lit ''be brief'') (lit ''answer'')])
   \<and> updatePersona_prompt big (always (reply True None)) (sample_update (Some 0)) [] =
     (Inr (reply True None, Num 0),
      [updatePrompt_request big 0 (lit ''helper'') (lit ''be brief'') (lit ''answer'')])
   \<and> ok (reply True None)
   \<and> url (updatePrompt_request big 0 (lit ''helper'') (lit ''be brief'') (lit ''answer''))
       = lit ''/api/prompt/0''
   \<and> http_method (updatePrompt_request big 0 (lit ''helper'') (lit ''be brief'') (lit ''answer''))
       = PATCH"
  (is "\<forall>big. ?P big")
proof
  fix big
  show "?P big"
  proof -
    have step: "updatePersona_prompt big (always (reply True None)) (sample_update (Some 0)) [] =
       (Inr (reply True None, Num 0),
        [updatePrompt_request big 0 (lit ''helper'') (lit ''be brief'') (lit ''answer'')])"
      using updatePersona_prompt_existing [of "sample_update (Some 0)" 0 big "always (reply True None)" "[]"]
      by (simp add: sample_update_def always_def)
    have run: "updatePersona big (always (reply True None)) (sample_update (Some 0)) [] =
       (Inr (reply True None, None),
        [updatePrompt_request big 0 (lit ''helper'') (lit ''be brief'') (lit ''answer'')])"
      using updatePersona_after_prompt
        [of big "always (reply True None)" "sample_update (Some 0)" "[]" "reply True None" "Num 0"] step
      by simp
    have u: "url (updatePrompt_request big 0 (lit ''helper'') (lit ''be brief'') (lit ''answer''))
         = lit ''/api/prompt/0''"
      by (simp add: updatePrompt_request_def Number_toString_0 lit_def)
    show ?thesis
      using step run u by (simp add: reply_def updatePrompt_request_shape)
  qed
qed

lemma updatePersona_issued_prefix:
  "\<exists>rest. issued hist (updatePersona big net rq hist)
     = issued hist (updatePersona_prompt big net rq hist) @ rest
     \<and> (rest = [] \<or> (\<exists>pid. rest = [updatePersona_request big rq pid]))"
proof (cases "updatePersona_prompt big net rq hist")
  case (Pair res h1)
  have len: "length hist \<le> length h1"
    using Pair
    by (cases "existingPromptId rq")
       (auto simp: updatePersona_prompt_existing updatePersona_prompt_absent)
  show ?thesis
  proof (cases res)
    case (Inl e)
    then show ?thesis
      using Pair updatePersona_prompt_rejected [of big net rq hist e h1] by (simp add: issued_def)
  next
    case (Inr pp)
    obtain pr pid where pp: "pp = (pr, pid)" by (cases pp)
    show ?thesis
      using Pair Inr pp len updatePersona_after_prompt [of big net rq hist pr pid h1]
      by (auto simp: issued_def)
  qed
qed

text \<open>
  C4. Without an existing prompt id, the prompt step of \<open>updatePersona\<close> is one
  create-Prompt call (a POST to \<^verbatim>\<open>/api/prompt\<close>), and it is the first call of the
  operation. When the call is answered, \<open>promptId\<close> is the \<open>id\<close> read off the parsed body
  if the response is successful and \<^verbatim>\<open>null\<close> otherwise. When the answer is successful
  with body \<^verbatim>\<open>{id: 5}\<close>, the persona update follows with \<open>prompt_ids = [5]\<close>.
\<close>

theorem updatePersona_without_existing_prompt:
  assumes "existingPromptId rq = None"
    and "net hist (createPrompt_request (name rq) (system_prompt rq) (task_prompt rq)) = Inr r"
  shows "issued hist (updatePersona_prompt big net rq hist) =
           [createPrompt_request (name rq) (system_prompt rq) (task_prompt rq)]
         \<and> take 1 (issued hist (updatePersona big net rq hist)) =
           [createPrompt_request (name rq) (system_prompt rq) (task_prompt rq)]
         \<and> url (createPrompt_request (name rq) (system_prompt rq) (task_prompt rq)) = lit ''/api/prompt''
         \<and> http_method (createPrompt_request (name rq) (system_prompt rq) (task_prompt rq)) = POST
         \<and> fst (updatePersona_prompt big net rq hist) =
             (if ok r
              then (case json r of
                      Inl e \<Rightarrow> Inl e
                    | Inr b \<Rightarrow>
                        (case get_property b (lit ''id'') of
                           Inl e \<Rightarrow> Inl e
                         | Inr i \<Rightarrow> Inr (r, i)))
              else Inr (r, Null))
         \<and> (ok r \<and> json_body r = Some (Obj [(lit ''id'', Num 5)]) \<longrightarrow>
              issued hist (updatePersona big net rq hist) =
                [createPrompt_request (name rq) (system_prompt rq) (task_prompt rq),
                 updatePersona_request big rq (Num 5)]
              \<and> is_persona_update big (id' rq) (updatePersona_request big rq (Num 5))
              \<and> body_property (updatePersona_request big rq (Num 5)) (lit ''prompt_ids'')
                  = Some (Arr [Num 5]))"
proof -
  let ?p = "createPrompt_request (name rq) (system_prompt rq) (task_prompt rq)"
  have step: "updatePersona_prompt big net rq hist =
      (case response_id r of Inl e \<Rightarrow> Inl e | Inr i \<Rightarrow> Inr (r, i), hist @ [?p])"
    using assms by (simp add: updatePersona_prompt_absent)
  have first: "issued hist (updatePersona_prompt big net rq hist) = [?p]"
    by (simp add: step issued_def)
  have head: "take 1 (issued hist (updatePersona big net rq hist)) = [?p]"
    using updatePersona_issued_prefix [of hist big net rq] first by auto
  have pid: "fst (updatePersona_prompt big net rq hist) =
             (if ok r
              then (case json r of
                      Inl e \<Rightarrow> Inl e
                    | Inr b \<Rightarrow>
                        (case get_property b (lit ''id'') of
                           Inl e \<Rightarrow> Inl e
                         | Inr i \<Rightarrow> Inr (r, i)))
              else Inr (r, Null))"
    by (simp add: step response_id_def split: sum.splits)
  have five: "issued hist (updatePersona big net rq hist) = [?p, updatePersona_request big rq (Num 5)]"
    if "ok r" and "json_body r = Some (Obj [(lit ''id'', Num 5)])"
  proof -
    have "response_id r = Inr (Num 5)"
      using that by (simp add: response_id_object)
    then have "updatePersona_prompt big net rq hist = (Inr (r, Num 5), hist @ [?p])"
      by (simp add: step)
    then show ?thesis
      using updatePersona_after_prompt [of big net rq hist r "Num 5" "hist @ [?p]"] that(1)
      by (simp add: issued_def)
  qed
  have upd: "is_persona_update big (id' rq) (updatePersona_request big rq (Num 5))"
    by (simp add: is_persona_update_def updatePersona_request_shape)
  show ?thesis
    using first head pid five upd
    by (simp add: createPrompt_request_shape updatePersona_request_prompt_ids)
qed

theorem updatePersona_without_existing_prompt_witness:
  "\<forall>big.
   existingPromptId (sample_update None) = None
   \<and> ok (reply True (Some (Obj [(lit ''id'', Num 5)])))
   \<and> json_body (reply True (Some (Obj [(lit ''id'', Num 5)]))) = Some (Obj [(lit ''id'', Num 5)])
   \<and> fst (updatePersona_prompt big (always (reply True (Some (Obj [(lit ''id'', Num 5)]))))
            (sample_update None) [])
       = Inr (reply True (Some (Obj [(lit ''id'', Num 5)])), Num 5)
   \<and> issued [] (updatePersona big (always (reply True (Some (Obj [(lit ''id'', Num 5)]))))
                  (sample_update None) [])
       = [createPrompt_request (lit ''helper'') (lit ''be brief'') (lit ''answer''),
          updatePersona_request big (sample_update None) (Num 5)]
   \<and> body_property (updatePersona_request big (sample_update None) (Num 5)) (lit ''prompt_ids'')
       = Some (Arr [Num 5])"
  (is "\<forall>big. ?P big")
proof
  fix big
  show "?P big"
    using updatePersona_without_existing_prompt
      [of "sample_update None" "always (reply True (Some (Obj [(lit ''id'', Num 5)])))" "[]"
          "reply True (Some (Obj [(lit ''id'', Num 5)]))"]
    by (simp add: always_def reply_def sample_update_def json_def)
qed

lemma createPrompt_request_not_persona_update:
  "\<not> is_persona_update big i (createPrompt_request pn sp tp)"
  by (simp add: is_persona_update_def createPrompt_request_def)

lemma updatePrompt_request_not_persona_update:
  "\<not> is_persona_update big i (updatePrompt_request big n pn sp tp)"
  by (simp add: is_persona_update_def updatePrompt_request_def lit_def)

lemma updatePersona_request_is_persona_update:
  "is_persona_update big (id' rq) (updatePersona_request big rq promptId)"
  by (simp add: is_persona_update_def updatePersona_request_shape)

lemma updatePersona_prompt_history:
  "\<exists>p. snd (updatePersona_prompt big net rq hist) = hist @ [p] \<and> \<not> is_persona_update big i p"
  by (cases "existingPromptId rq")
     (simp_all add: updatePersona_prompt_absent updatePersona_prompt_existing
        createPrompt_request_not_persona_update updatePrompt_request_not_persona_update)

lemma updatePersona_persona_call_issued:
  "(\<exists>q \<in> set (issued hist (updatePersona big net rq hist)). is_persona_update big (id' rq) q)
     = (\<exists>pr pid. fst (updatePersona_prompt big net rq hist) = Inr (pr, pid) \<and> ok pr \<and> ToBoolean pid)"
proof -
  obtain p where p: "snd (updatePersona_prompt big net rq hist) = hist @ [p]"
    and np: "\<not> is_persona_update big (id' rq) p"
    using updatePersona_prompt_history [of big net rq hist "id' rq"] by blast
  show ?thesis
  proof (cases "fst (updatePersona_prompt big net rq hist)")
    case (Inl e)
    then have "updatePersona_prompt big net rq hist = (Inl e, hist @ [p])"
      using p by (simp add: prod_eq_iff)
    then have "updatePersona big net rq hist = (Inl e, hist @ [p])"
      by (rule updatePersona_prompt_rejected)
    then show ?thesis
      using Inl np by (simp add: issued_def)
  next
    case (Inr pp)
    obtain pr pid where pp: "pp = (pr, pid)" by (cases pp)
    have "updatePersona_prompt big net rq hist = (Inr (pr, pid), hist @ [p])"
      using Inr pp p by (simp add: prod_eq_iff)
    then show ?thesis
      using updatePersona_after_prompt [of big net rq hist pr pid "hist @ [p]"] Inr pp np
      by (simp add: issued_def updatePersona_request_is_persona_update)
  qed
qed

text \<open>
  C5. \<open>updatePersona\<close> issues the persona update, a PATCH to
  \<^verbatim>\<open>/api/admin/persona/{id}\<close> with the id as the platform writes a number, exactly when the prompt step left a response that is
  successful and a \<open>promptId\<close> that is truthy. Once the prompt step has left its response
  and \<open>promptId\<close>, the result is the prompt response paired with the response of the
  persona update, or with \<^verbatim>\<open>null\<close> when that call is skipped. The number 0 is falsy:
  with the existing prompt id 0 no persona update is issued, and an answered prompt call
  ends in the pair of its response and \<^verbatim>\<open>null\<close>.
\<close>

theorem updatePersona_persona_call_iff:
  "((\<exists>q \<in> set (issued hist (updatePersona big net rq hist)). is_persona_update big (id' rq) q)
      = (\<exists>pr pid. fst (updatePersona_prompt big net rq hist) = Inr (pr, pid) \<and> ok pr \<and> ToBoolean pid))
   \<and> (\<forall>pr pid h1. updatePersona_prompt big net rq hist = (Inr (pr, pid), h1) \<longrightarrow>
         updatePersona big net rq hist =
           (if ok pr \<and> ToBoolean pid
            then (case net h1 (updatePersona_request big rq pid) of
                    Inl e \<Rightarrow> Inl e
                  | Inr r2 \<Rightarrow> Inr (pr, Some r2),
                  h1 @ [updatePersona_request big rq pid])
            else (Inr (pr, None), h1)))
   \<and> \<not> ToBoolean (Num 0)
   \<and> (existingPromptId rq = Some 0 \<longrightarrow>
         \<not> (\<exists>q \<in> set (issued hist (updatePersona big net rq hist)). is_persona_update big (id' rq) q)
         \<and> (\<forall>r. net hist (updatePrompt_request big 0 (name rq) (system_prompt rq) (task_prompt rq)) = Inr r
               \<longrightarrow> fst (updatePersona big net rq hist) = Inr (r, None)))"
proof -
  have zero: "\<not> (\<exists>q \<in> set (issued hist (updatePersona big net rq hist)). is_persona_update big (id' rq) q)
      \<and> (\<forall>r. net hist (updatePrompt_request big 0 (name rq) (system_prompt rq) (task_prompt rq)) = Inr r
            \<longrightarrow> fst (updatePersona big net rq hist) = Inr (r, None))"
    if ex: "existingPromptId rq = Some 0"
  proof -
    let ?p = "updatePrompt_request big 0 (name rq) (system_prompt rq) (task_prompt rq)"
    have step: "updatePersona_prompt big net rq hist =
        (case net hist ?p of Inl e \<Rightarrow> Inl e | Inr r \<Rightarrow> Inr (r, Num 0), hist @ [?p])"
      using ex by (rule updatePersona_prompt_existing)
    have "\<not> (\<exists>pr pid. fst (updatePersona_prompt big net rq hist) = Inr (pr, pid) \<and> ok pr \<and> ToBoolean pid)"
      by (auto simp: step split: sum.splits)
    moreover have "fst (updatePersona big net rq hist) = Inr (r, None)" if "net hist ?p = Inr r" for r
      using updatePersona_after_prompt [of big net rq hist r "Num 0" "hist @ [?p]"] step that by simp
    ultimately show ?thesis
      by (simp add: updatePersona_persona_call_issued)
  qed
  show ?thesis
    using zero by (simp add: updatePersona_persona_call_issued updatePersona_after_prompt)
qed

theorem updatePersona_persona_call_iff_witness:
  "\<forall>big.
   updatePersona_prompt big (always (reply True None)) (sample_update (Some 42)) [] =
     (Inr (reply True None, Num 42),
      [updatePrompt_request big 42 (lit ''helper'') (lit ''be brief'') (lit ''answer'')])
   \<and> ok (reply True None) \<and> ToBoolean (Num 42)
   \<and> updatePersona big (always (reply True None)) (sample_update (Some 42)) [] =
     (Inr (reply True None, Some (reply True None)),
      [updatePrompt_request big 42 (lit ''helper'') (lit ''be brief'') (lit ''answer''),
       updatePersona_request big (sample_update (Some 42)) (Num 42)])
   \<and> existingPromptId (sample_update (Some 0)) = Some 0
   \<and> fst (updatePersona big (always (reply True None)) (sample_update (Some 0)) []) =
       Inr (reply True None, None)"
  (is "\<forall>big. ?P big")
proof
  fix big
  show "?P big"
  proof -
    have step: "updatePersona_prompt big (always (reply True None)) (sample_update (Some 42)) [] =
       (Inr (reply True None, Num 42),
        [updatePrompt_request big 42 (lit ''helper'') (lit ''be brief'') (lit ''answer'')])"
      using updatePersona_prompt_existing [of "sample_update (Some 42)" 42 big "always (reply True None)" "[]"]
      by (simp add: sample_update_def always_def)
    have ex0: "existingPromptId (sample_update (Some 0)) = Some 0"
      by (simp add: sample_update_def)
    have okr: "ok (reply True None)"
      by (simp add: reply_def)
    show ?thesis
      using step ex0 okr
        updatePersona_persona_call_iff
          [of "[]" big "always (reply True None)" "sample_update (Some 42)"]
        updatePersona_persona_call_iff
          [of "[]" big "always (reply True None)" "sample_update (Some 0)"]
      by (simp add: always_def)
  qed
qed

subsection \<open>The bodies both operations send\<close>

lemma prompt_wire_fields:
  "map_of [(lit ''name'', a), (lit ''description'', b), (lit ''shared'', c),
           (lit ''system_prompt'', d), (lit ''task_prompt'', e)] (lit ''name'') = Some a"
  "map_of [(lit ''name'', a), (lit ''description'', b), (lit ''shared'', c),
           (lit ''system_prompt'', d), (lit ''task_prompt'', e)] (lit ''description'') = Some b"
  "map_of [(lit ''name'', a), (lit ''description'', b), (lit ''shared'', c),
           (lit ''system_prompt'', d), (lit ''task_prompt'', e)] (lit ''shared'') = Some c"
  by (simp_all add: lit_def)

lemma JSON_stringify_prompt_body:
  "JSON_stringify (prompt_body pn sp tp) = Some (Obj
     [(lit ''name'', Str (lit ''default-prompt__'' @ pn)),
      (lit ''description'', Str (lit ''Default prompt for persona '' @ pn)),
      (lit ''shared'', Bool True),
      (lit ''system_prompt'', Str sp),
      (lit ''task_prompt'', Str tp)])"
  by (simp add: JSON_stringify_def prompt_body_def promptNameFromPersonaName_def)

lemma prompt_request_fields:
  "body_property (createPrompt_request pn sp tp) (lit ''name'')
     = Some (Str (lit ''default-prompt__'' @ pn))
   \<and> body_property (createPrompt_request pn sp tp) (lit ''description'')
     = Some (Str (lit ''Default prompt for persona '' @ pn))
   \<and> body_property (createPrompt_request pn sp tp) (lit ''shared'') = Some (Bool True)
   \<and> body_property (updatePrompt_request big n pn sp tp) (lit ''name'')
     = Some (Str (lit ''default-prompt__'' @ pn))
   \<and> body_property (updatePrompt_request big n pn sp tp) (lit ''description'')
     = Some (Str (lit ''Default prompt for persona '' @ pn))
   \<and> body_property (updatePrompt_request big n pn sp tp) (lit ''shared'') = Some (Bool True)"
  by (simp only: body_property_def createPrompt_request_def updatePrompt_request_def
        request.simps JSON_stringify_prompt_body option.case jsval.case prompt_wire_fields
        simp_thms)

lemma createPersona_calls:
  "\<forall>q \<in> set (issued hist (createPersona net rq hist)).
     q = createPrompt_request (name rq) (system_prompt rq) (task_prompt rq)
     \<or> (\<exists>pid. q = createPersona_request rq pid)"
proof (cases "net hist (createPrompt_request (name rq) (system_prompt rq) (task_prompt rq))")
  case (Inl e)
  then show ?thesis
    by (simp add: createPersona_prompt_rejected issued_def)
next
  case (Inr r)
  show ?thesis
  proof (cases "response_id r")
    case (Inl e)
    then show ?thesis
      using Inr createPersona_id_rejected [of net hist rq r e] by (simp add: issued_def)
  next
    case rid: (Inr pid)
    show ?thesis
    proof (cases "pid = Null")
      case True
      then show ?thesis
        using Inr rid createPersona_skipped [of net hist rq r] by (simp add: issued_def)
    next
      case False
      then show ?thesis
        using Inr rid createPersona_posted [of net hist rq r pid] by (auto simp: issued_def)
    qed
  qed
qed

lemma updatePersona_calls:
  "\<forall>q \<in> set (issued hist (updatePersona big net rq hist)).
     q = createPrompt_request (name rq) (system_prompt rq) (task_prompt rq)
     \<or> (\<exists>n. q = updatePrompt_request big n (name rq) (system_prompt rq) (task_prompt rq))
     \<or> (\<exists>pid. q = updatePersona_request big rq pid)"
proof -
  obtain rest where rest: "issued hist (updatePersona big net rq hist)
      = issued hist (updatePersona_prompt big net rq hist) @ rest"
    and shape: "rest = [] \<or> (\<exists>pid. rest = [updatePersona_request big rq pid])"
    using updatePersona_issued_prefix [of hist big net rq] by blast
  have "issued hist (updatePersona_prompt big net rq hist)
          = [createPrompt_request (name rq) (system_prompt rq) (task_prompt rq)]
        \<or> (\<exists>n. issued hist (updatePersona_prompt big net rq hist)
              = [updatePrompt_request big n (name rq) (system_prompt rq) (task_prompt rq)])"
    by (cases "existingPromptId rq")
       (auto simp: updatePersona_prompt_absent updatePersona_prompt_existing issued_def)
  then show ?thesis
    using rest shape by auto
qed

text \<open>
  C7. Every call that \<open>createPersona\<close> or \<open>updatePersona\<close> issues is either the prompt
  request built from the request's name and its two prompt texts, or the persona request
  built by \<open>buildPersonaAPIBody\<close>. A prompt body has the name
  \<^verbatim>\<open>default-prompt__<personaName>\<close>, the description
  \<^verbatim>\<open>Default prompt for persona <personaName>\<close> and \<open>shared = true\<close>: all three are
  functions of the persona name alone. A persona body has a \<open>prompt_ids\<close> of exactly one
  element, as built and as serialised.
\<close>

theorem bodies_one_prompt_id_and_derived_prompt_fields:
  "(\<forall>q \<in> set (issued hist (createPersona net rq hist)).
      q = createPrompt_request (name rq) (system_prompt rq) (task_prompt rq)
      \<or> (\<exists>pid. q = createPersona_request rq pid))
   \<and> (\<forall>q \<in> set (issued hist (updatePersona big net urq hist)).
      q = createPrompt_request (name urq) (system_prompt urq) (task_prompt urq)
      \<or> (\<exists>n. q = updatePrompt_request big n (name urq) (system_prompt urq) (task_prompt urq))
      \<or> (\<exists>pid. q = updatePersona_request big urq pid))
   \<and> body_property (createPrompt_request pn sp tp) (lit ''name'')
       = Some (Str (lit ''default-prompt__'' @ pn))
   \<and> body_property (createPrompt_request pn sp tp) (lit ''description'')
       = Some (Str (lit ''Default prompt for persona '' @ pn))
   \<and> body_property (createPrompt_request pn sp tp) (lit ''shared'') = Some (Bool True)
   \<and> body_property (updatePrompt_request big n pn sp tp) (lit ''name'')
       = Some (Str (lit ''default-prompt__'' @ pn))
   \<and> body_property (updatePrompt_request big n pn sp tp) (lit ''description'')
       = Some (Str (lit ''Default prompt for persona '' @ pn))
   \<and> body_property (updatePrompt_request big n pn sp tp) (lit ''shared'') = Some (Bool True)
   \<and> get_property (buildPersonaAPIBody rq promptId) (lit ''prompt_ids'') = Inr (Arr [promptId])
   \<and> get_property (buildPersonaAPIBody urq promptId) (lit ''prompt_ids'') = Inr (Arr [promptId])
   \<and> body_property (createPersona_request rq promptId) (lit ''prompt_ids'')
       = Some (Arr [if promptId = Undefined then Null else serialise promptId])
   \<and> body_property (updatePersona_request big urq promptId) (lit ''prompt_ids'')
       = Some (Arr [if promptId = Undefined then Null else serialise promptId])"
  using createPersona_calls [of hist net rq] updatePersona_calls [of hist big net urq]
    prompt_request_fields [of pn sp tp big n]
  by (simp only: buildPersonaAPIBody_prompt_ids createPersona_request_prompt_ids
        updatePersona_request_prompt_ids simp_thms)

theorem bodies_one_prompt_id_and_derived_prompt_fields_witness:
  "createPrompt_request (lit ''helper'') (lit ''be brief'') (lit ''answer'')
     \<in> set (issued [] (createPersona (always (reply False None)) sample_creation []))
   \<and> createPrompt_request (lit ''helper'') (lit ''be brief'') (lit ''answer'')
       = createPrompt_request (name sample_creation) (system_prompt sample_creation)
           (task_prompt sample_creation)
   \<and> body_property (createPrompt_request (lit ''helper'') (lit ''be brief'') (lit ''answer''))
       (lit ''name'') = Some (Str (lit ''default-prompt__helper''))
   \<and> body_property (createPrompt_request (lit ''helper'') (lit ''be brief'') (lit ''answer''))
       (lit ''description'') = Some (Str (lit ''Default prompt for persona helper''))
   \<and> body_property (createPersona_request sample_creation (Num 7)) (lit ''prompt_ids'')
       = Some (Arr [Num 7])"
proof -
  have run: "createPersona (always (reply False None)) sample_creation [] =
      (Inr (reply False None, None),
       [createPrompt_request (lit ''helper'') (lit ''be brief'') (lit ''answer'')])"
    using createPersona_prompt_not_ok
      [of "always (reply False None)" "[]" sample_creation "reply False None"]
    by (simp add: always_def reply_def sample_creation_def)
  have cat: "lit ''default-prompt__'' @ lit ''helper'' = lit ''default-prompt__helper''"
    "lit ''Default prompt for persona '' @ lit ''helper'' = lit ''Default prompt for persona helper''"
    by (simp_all add: lit_def)
  have flds: "name sample_creation = lit ''helper''" "system_prompt sample_creation = lit ''be brief''"
    "task_prompt sample_creation = lit ''answer''"
    by (simp_all add: sample_creation_def)
  show ?thesis
    using bodies_one_prompt_id_and_derived_prompt_fields
      [of "[]" "always (reply False None)" sample_creation _ "sample_update None"
          "lit ''helper''" "lit ''be brief''" "lit ''answer''" 0 "Num 7"]
    by (simp add: run issued_def cat flds)
qed

subsection \<open>buildFinalPrompt\<close>

text \<open>\<open>Encode\<close> succeeds exactly on the strings without an unpaired surrogate.\<close>

lemma unescaped_not_surrogate:
  "unescaped c \<Longrightarrow> \<not> leading_surrogate c \<and> \<not> trailing_surrogate c"
  by (auto simp: unescaped_def leading_surrogate_def trailing_surrogate_def Let_def)

lemma leading_not_trailing: "leading_surrogate c \<Longrightarrow> \<not> trailing_surrogate c"
  by (simp add: leading_surrogate_def trailing_surrogate_def)

lemma Encode_error: "Encode x = Inl e \<Longrightarrow> e = URIError"
  by (induction x arbitrary: e rule: Encode.induct)
     (auto split: if_splits sum.splits list.splits)

lemma Encode_succeeds_iff: "(\<exists>s. Encode x = Inr s) = well_formed x"
proof (induction x rule: Encode.induct)
  case 1
  show ?case by simp
next
  case (2 c cs)
  show ?case
  proof (cases "unescaped c")
    case True
    then show ?thesis
      using 2(1) unescaped_not_surrogate [of c] by (auto split: sum.splits)
  next
    case nu: False
    show ?thesis
    proof (cases "trailing_surrogate c")
      case True
      then show ?thesis
        using nu leading_not_trailing [of c] by auto
    next
      case nt: False
      show ?thesis
      proof (cases "leading_surrogate c")
        case True
        then show ?thesis
          using nu nt 2(2) by (auto split: sum.splits list.splits)
      next
        case False
        then show ?thesis
          using nu nt 2(3) by (auto split: sum.splits)
      qed
    qed
  qed
qed

lemma Encode_ill_formed: "\<not> well_formed x \<Longrightarrow> Encode x = Inl URIError"
  using Encode_succeeds_iff [of x] Encode_error [of x] by (cases "Encode x") auto

lemma unat_code_unit: "n < 65536 \<Longrightarrow> unat (of_nat n :: 16 word) = n"
  by (simp add: unat_of_nat)

lemma hex_unit_unescaped: "d < 16 \<Longrightarrow> unescaped (hex_unit d)"
  by (auto simp: hex_unit_def unescaped_def unat_code_unit Let_def)

lemma percent_safe: "octet < 256 \<Longrightarrow> c \<in> set (percent octet) \<Longrightarrow> uri_safe c"
  by (auto simp: percent_def uri_safe_def intro!: hex_unit_unescaped)

lemma utf8_octets: "cp < 0x110000 \<Longrightarrow> b \<in> set (utf8 cp) \<Longrightarrow> b < 256"
  by (auto simp: utf8_def split: if_splits)

lemma escape_safe: "cp < 0x110000 \<Longrightarrow> c \<in> set (escape cp) \<Longrightarrow> uri_safe c"
  by (auto simp: escape_def dest: utf8_octets percent_safe)

lemma pair_code_point_bound:
  "leading_surrogate c \<Longrightarrow> trailing_surrogate d \<Longrightarrow> pair_code_point c d < 0x110000"
  unfolding leading_surrogate_def trailing_surrogate_def pair_code_point_def by arith

lemma code_unit_bound: "unat (c :: 16 word) < 0x110000"
proof -
  have "unat c < 2 ^ LENGTH(16)"
    by (rule unsigned_less)
  then show ?thesis by simp
qed

lemma Encode_safe: "Encode x = Inr s \<Longrightarrow> c \<in> set s \<Longrightarrow> uri_safe c"
proof (induction x arbitrary: s rule: Encode.induct)
  case 1
  then show ?case by simp
next
  case (2 u us)
  show ?case
  proof (cases "unescaped u")
    case True
    then show ?thesis
      using 2(1,4,5) by (auto simp: uri_safe_def split: sum.splits)
  next
    case nu: False
    show ?thesis
    proof (cases "leading_surrogate u")
      case True
      then show ?thesis
        using nu 2(2,4,5) leading_not_trailing [of u]
        by (auto split: sum.splits list.splits if_splits
              dest: escape_safe [OF pair_code_point_bound])
    next
      case False
      then show ?thesis
        using nu 2(3,4,5)
        by (auto split: sum.splits if_splits dest: escape_safe [OF code_unit_bound])
    qed
  qed
qed

lemma Encode_keys:
  "Encode (lit ''system_prompt'') = Inr (lit ''system_prompt'')"
  "Encode (lit ''task_prompt'') = Inr (lit ''task_prompt'')"
  "Encode (lit ''retrieval_disabled'') = Inr (lit ''retrieval_disabled'')"
  by (simp_all add: lit_def unescaped_def)

lemma Encode_Boolean_toString: "Encode (Boolean_toString b) = Inr (Boolean_toString b)"
  by (simp add: Boolean_toString_def lit_def unescaped_def)

lemma Encode_examples:
  "Encode (lit ''sys a'') = Inr (lit ''sys%20a'')"
  "Encode (lit ''task/b'') = Inr (lit ''task%2Fb'')"
  by (simp_all add: lit_def unescaped_def trailing_surrogate_def leading_surrogate_def
        escape_def utf8_def percent_def hex_unit_def)

lemma query_string_shape:
  "join (lit ''&'')
     [lit ''system_prompt'' @ lit ''='' @ s, lit ''task_prompt'' @ lit ''='' @ t,
      lit ''retrieval_disabled'' @ lit ''='' @ b]
   = lit ''system_prompt='' @ s @ lit ''&task_prompt='' @ t @ lit ''&retrieval_disabled='' @ b"
  by (simp add: lit_def)

lemma buildFinalPrompt_encoded:
  assumes "Encode systemPrompt = Inr s" and "Encode taskPrompt = Inr t"
  shows "buildFinalPrompt net systemPrompt taskPrompt retrievalDisabled hist =
          (Inr (net hist (buildFinalPrompt_request
                  (lit ''system_prompt='' @ s @ lit ''&task_prompt='' @ t
                     @ lit ''&retrieval_disabled='' @ Boolean_toString retrievalDisabled))),
           hist @ [buildFinalPrompt_request
                  (lit ''system_prompt='' @ s @ lit ''&task_prompt='' @ t
                     @ lit ''&retrieval_disabled='' @ Boolean_toString retrievalDisabled)])"
proof -
  have parts: "map_throwing encode_entry
      (prompt_explorer_entries systemPrompt taskPrompt retrievalDisabled)
      = Inr [lit ''system_prompt'' @ lit ''='' @ s, lit ''task_prompt'' @ lit ''='' @ t,
             lit ''retrieval_disabled'' @ lit ''='' @ Boolean_toString retrievalDisabled]"
    using assms
    by (simp add: prompt_explorer_entries_def encode_entry_def encodeURIComponent_def
          Encode_keys Encode_Boolean_toString)
  show ?thesis
    by (simp only: buildFinalPrompt_def parts sum.case Let_def query_string_shape fetch_def
          prod.case)
qed

lemma buildFinalPrompt_ill_formed:
  assumes "\<not> well_formed systemPrompt \<or> \<not> well_formed taskPrompt"
  shows "buildFinalPrompt net systemPrompt taskPrompt retrievalDisabled hist = (Inl URIError, hist)"
proof -
  have "Encode systemPrompt = Inl URIError
        \<or> (\<exists>s. Encode systemPrompt = Inr s \<and> Encode taskPrompt = Inl URIError)"
    using assms Encode_ill_formed [of systemPrompt] Encode_ill_formed [of taskPrompt]
      Encode_succeeds_iff [of systemPrompt]
    by auto
  then have "map_throwing encode_entry
      (prompt_explorer_entries systemPrompt taskPrompt retrievalDisabled) = Inl URIError"
    by (auto simp: prompt_explorer_entries_def encode_entry_def encodeURIComponent_def
          Encode_keys)
  then show ?thesis
    by (simp add: buildFinalPrompt_def)
qed

text \<open>
  C8 as claimed, for all inputs, does not hold: a string with an unpaired surrogate makes
  \<^verbatim>\<open>encodeURIComponent\<close> throw, and \<open>buildFinalPrompt\<close> issues no request at all.
\<close>

theorem buildFinalPrompt_unpaired_surrogate:
  "buildFinalPrompt (always (reply True None)) [0xD800] (lit ''task/b'') True []
     = (Inl URIError, [])"
  by (rule buildFinalPrompt_ill_formed) (simp add: leading_surrogate_def)

text \<open>
  C8, amended. For every \<open>systemPrompt\<close> and \<open>taskPrompt\<close> without an unpaired surrogate
  and every \<open>retrievalDisabled\<close>, both strings have a percent-encoding, made only of
  unreserved characters and \<^verbatim>\<open>%\<close> escapes, and \<open>buildFinalPrompt\<close> issues exactly one
  call: a GET without body to \<^verbatim>\<open>/api/persona/utils/prompt-explorer?\<close> followed by
  \<^verbatim>\<open>system_prompt=\<close>, \<^verbatim>\<open>task_prompt=\<close> and \<^verbatim>\<open>retrieval_disabled=\<close> with their encoded
  values, in this order, joined by \<^verbatim>\<open>&\<close>. It returns the promise of that call. A space
  is encoded as \<^verbatim>\<open>%20\<close> and a slash as \<^verbatim>\<open>%2F\<close>.
\<close>

theorem buildFinalPrompt_well_formed:
  assumes "well_formed systemPrompt" and "well_formed taskPrompt"
  shows "\<exists>s t. Encode systemPrompt = Inr s \<and> Encode taskPrompt = Inr t
           \<and> (\<forall>c \<in> set s \<union> set t. uri_safe c)
           \<and> buildFinalPrompt net systemPrompt taskPrompt retrievalDisabled hist =
               (Inr (net hist (buildFinalPrompt_request
                  (lit ''system_prompt='' @ s @ lit ''&task_prompt='' @ t
                     @ lit ''&retrieval_disabled='' @ Boolean_toString retrievalDisabled))),
                hist @ [buildFinalPrompt_request
                  (lit ''system_prompt='' @ s @ lit ''&task_prompt='' @ t
                     @ lit ''&retrieval_disabled='' @ Boolean_toString retrievalDisabled)])
           \<and> url (buildFinalPrompt_request
                  (lit ''system_prompt='' @ s @ lit ''&task_prompt='' @ t
                     @ lit ''&retrieval_disabled='' @ Boolean_toString retrievalDisabled))
               = lit ''/api/persona/utils/prompt-explorer?'' @ lit ''system_prompt='' @ s
                   @ lit ''&task_prompt='' @ t @ lit ''&retrieval_disabled=''
                   @ Boolean_toString retrievalDisabled
           \<and> http_method (buildFinalPrompt_request
                  (lit ''system_prompt='' @ s @ lit ''&task_prompt='' @ t
                     @ lit ''&retrieval_disabled='' @ Boolean_toString retrievalDisabled)) = GET
           \<and> body (buildFinalPrompt_request
                  (lit ''system_prompt='' @ s @ lit ''&task_prompt='' @ t
                     @ lit ''&retrieval_disabled='' @ Boolean_toString retrievalDisabled)) = None
           \<and> Encode (lit ''sys a'') = Inr (lit ''sys%20a'')
           \<and> Encode (lit ''task/b'') = Inr (lit ''task%2Fb'')"
proof -
  obtain s where s: "Encode systemPrompt = Inr s"
    using assms(1) Encode_succeeds_iff [of systemPrompt] by blast
  obtain t where t: "Encode taskPrompt = Inr t"
    using assms(2) Encode_succeeds_iff [of taskPrompt] by blast
  have safe: "\<forall>c \<in> set s \<union> set t. uri_safe c"
    using Encode_safe [OF s] Encode_safe [OF t] by blast
  have shape: "url (buildFinalPrompt_request q) = lit ''/api/persona/utils/prompt-explorer?'' @ q
      \<and> http_method (buildFinalPrompt_request q) = GET
      \<and> body (buildFinalPrompt_request q) = None" for q
    by (simp add: buildFinalPrompt_request_def)
  show ?thesis
    using s t safe buildFinalPrompt_encoded [OF s t, of net retrievalDisabled hist] shape
      Encode_examples
    by (intro exI [of _ s] exI [of _ t]) simp
qed

theorem buildFinalPrompt_well_formed_witness:
  "well_formed (lit ''sys a'') \<and> well_formed (lit ''task/b'')
   \<and> buildFinalPrompt (always (reply True None)) (lit ''sys a'') (lit ''task/b'') True [] =
       (Inr (Inr (reply True None)),
        [\<lparr>url = lit ''/api/persona/utils/prompt-explorer?system_prompt=sys%20a&task_prompt=task%2Fb&retrieval_disabled=true'',
          http_method = GET, headers = [], body = None\<rparr>])"
proof -
  have wf: "well_formed (lit ''sys a'')" "well_formed (lit ''task/b'')"
    by (simp_all add: lit_def leading_surrogate_def trailing_surrogate_def)
  have cat: "lit ''/api/persona/utils/prompt-explorer?'' @ lit ''system_prompt='' @ lit ''sys%20a''
       @ lit ''&task_prompt='' @ lit ''task%2Fb'' @ lit ''&retrieval_disabled='' @ lit ''true''
     = lit ''/api/persona/utils/prompt-explorer?system_prompt=sys%20a&task_prompt=task%2Fb&retrieval_disabled=true''"
    by (simp add: lit_def)
  obtain s t where st: "Encode (lit ''sys a'') = Inr s" "Encode (lit ''task/b'') = Inr t"
    and run: "buildFinalPrompt (always (reply True None)) (lit ''sys a'') (lit ''task/b'') True [] =
       (Inr (always (reply True None) [] (buildFinalPrompt_request
          (lit ''system_prompt='' @ s @ lit ''&task_prompt='' @ t
             @ lit ''&retrieval_disabled='' @ Boolean_toString True))),
        [] @ [buildFinalPrompt_request
          (lit ''system_prompt='' @ s @ lit ''&task_prompt='' @ t
             @ lit ''&retrieval_disabled='' @ Boolean_toString True)])"
    using buildFinalPrompt_well_formed [OF wf, of "always (reply True None)" True "[]"] by blast
  have "s = lit ''sys%20a''" "t = lit ''task%2Fb''"
    using st Encode_examples by simp_all
  then show ?thesis
    using wf run cat
    by (simp add: always_def buildFinalPrompt_request_def Boolean_toString_def)
qed

end
